theory Spec2Isabelle
  imports Main
begin

section \<open>Data model of the domain-claim validator\<close>

text \<open>
  The validator of \<^verbatim>\<open>libraries/dns/dns_transaction_validator.cpp\<close> works on types declared
  in headers that are not among the sources (\<^verbatim>\<open>dns_transaction_validator.hpp\<close>,
  \<^verbatim>\<open>dns_util.hpp\<close>, the blockchain library). Their shape below is the one the code of the
  validator relies on: the fields it reads and writes and the operations it applies to them.
  Names are those of the code, but for two fields whose names are reserved words here: the
  \<^verbatim>\<open>value\<close> of a claim is \<open>domain_value\<close> and the \<^verbatim>\<open>output\<close> of an input is
  \<open>in_output\<close>.
\<close>

text \<open>
  Modelled from the spec: the declarations of \<^verbatim>\<open>asset\<close>, \<^verbatim>\<open>address\<close> and
  \<^verbatim>\<open>output_reference\<close> are missing. The code compares, subtracts and accumulates assets:
  an asset is an integer amount. An address identifies a key and an output reference
  identifies the committed record of a name; the validator only passes them on and compares
  addresses.
\<close>

type_synonym asset = int
type_synonym address = string
type_synonym output_reference = "nat \<times> nat"

text \<open>
  Modelled from the spec: the declaration of \<^verbatim>\<open>claim_domain_output\<close> is missing. The
  spec gives a claim output a name, a value, an owner and a state that is one of the two
  auction states; the code still checks \<^verbatim>\<open>is_valid_state\<close>, so a carried state can be
  something else, which is the third constructor.
\<close>

datatype states = possibly_in_auction | not_in_auction | unrecognized nat

record claim_domain_output =
  name :: string
  domain_value :: string
  owner :: address
  state :: states

text \<open>
  Modelled from the spec: the declaration of \<^verbatim>\<open>trx_output\<close> and the helpers
  \<^verbatim>\<open>is_dns_output\<close> and \<^verbatim>\<open>to_dns_output\<close> of \<^verbatim>\<open>dns_util\<close> are missing. An output
  carries an amount and a claim, a closed variant over the kinds of output: a claim by
  signature (paying an owner), a name claim, or any other kind. The test
  \<^verbatim>\<open>is_dns_output\<close> followed by \<^verbatim>\<open>to_dns_output\<close> is a case distinction on the claim; so are
  the test \<^verbatim>\<open>claim_func == claim_by_signature\<close> and the read of the owner that follows it.
\<close>

datatype claim =
    claim_by_signature address
  | claim_domain claim_domain_output
  | claim_other nat

record trx_output =
  amount :: asset
  claim :: claim

text \<open>
  Modelled from the spec: the declarations of \<^verbatim>\<open>meta_trx_input\<close>,
  \<^verbatim>\<open>signed_transaction\<close>, \<^verbatim>\<open>transaction_evaluation_state\<close>,
  \<^verbatim>\<open>dns_tx_evaluation_state\<close> and \<^verbatim>\<open>dns_block_evaluation_state\<close> are missing. The
  generic evaluation state of a transaction holds the transaction under evaluation (the
  validator reads its list of outputs), the addresses that signed it and the required-fee
  accumulator. The state of the name-claim validator extends it, as
  \<^verbatim>\<open>dns_tx_evaluation_state\<close> derives from \<^verbatim>\<open>transaction_evaluation_state\<close>, with the two
  flags, the claim input seen and its amount. The block state holds the name pool, an ordered
  sequence of names (the code appends with \<^verbatim>\<open>push_back\<close>).
\<close>

record meta_trx_input =
  in_output :: trx_output

record signed_transaction =
  outputs :: "trx_output list"

record transaction_evaluation_state =
  trx :: signed_transaction
  sigs :: "address list"
  required_fees :: asset

record dns_tx_evaluation_state = transaction_evaluation_state +
  seen_domain_input :: bool
  seen_domain_output :: bool
  input :: claim_domain_output
  input_amount :: asset

record dns_block_evaluation_state =
  name_pool :: "string list"

text \<open>
  Modelled from the spec: \<^verbatim>\<open>add_required_fees\<close> and \<^verbatim>\<open>has_signature\<close> are members of
  the missing \<^verbatim>\<open>transaction_evaluation_state\<close>. The spec describes them as the
  accumulation of a required fee and as the test that a key signed the transaction.
\<close>

definition add_required_fees ::
  "asset \<Rightarrow> dns_tx_evaluation_state \<Rightarrow> dns_tx_evaluation_state" where
  "add_required_fees a st = st\<lparr>required_fees := required_fees st + a\<rparr>"

definition has_signature :: "dns_tx_evaluation_state \<Rightarrow> address \<Rightarrow> bool" where
  "has_signature st a = (a \<in> set (sigs st))"

text \<open>
  Every \<^verbatim>\<open>FC_ASSERT\<close> of the validator that fails throws; one error per assertion, in the
  order of the source, and one for whatever the inherited generic validator throws.
\<close>

datatype dns_error =
    More_than_one_domain_claim_input
  | Input_references_invalid_name
  | More_than_one_domain_claim_output
  | Invalid_name
  | Invalid_value
  | Invalid_state
  | Invalid_amount
  | Name_already_exists
  | Name_new_or_expired
  | Different_input_and_output_names
  | Name_not_available
  | Input_not_for_auction
  | Invalid_bid_amount
  | Bid_did_not_pay_enough_to_previous_owner
  | Domain_is_expired
  | Output_amount_should_not_change
  | Missing_required_signature
  | Generic_validation_error nat

text \<open>
  The states are passed by reference and an exception does not undo a write, so every
  validator returns the states as it leaves them together with the error thrown, if any:
  \<open>None\<close> is a normal return.
\<close>

type_synonym tx_result = "dns_error option \<times> dns_tx_evaluation_state"
type_synonym result =
  "dns_error option \<times> dns_tx_evaluation_state \<times> dns_block_evaluation_state"

text \<open>
  What the validator calls and the sources do not define is a parameter: the
  predicates of \<^verbatim>\<open>dns_util\<close>, the record lookup of the database, and the
  \<^verbatim>\<open>validate_input\<close> and \<^verbatim>\<open>validate_output\<close> of the inherited
  \<^verbatim>\<open>transaction_validator\<close>. A function with output parameters returns them in a tuple:
  \<^verbatim>\<open>name_is_available\<close> returns (available, new_or_expired, prev_tx_ref) and
  \<^verbatim>\<open>is_valid_bid_price\<close> returns (valid, amount_back).
\<close>

record 'db dns_util =
  is_valid_name :: "string \<Rightarrow> bool"
  is_valid_value :: "string \<Rightarrow> bool"
  is_valid_state :: "states \<Rightarrow> bool"
  is_valid_amount :: "asset \<Rightarrow> bool"
  is_valid_bid_price :: "asset \<Rightarrow> asset \<Rightarrow> bool \<times> asset"
  name_is_available :: "string \<Rightarrow> string list \<Rightarrow> 'db \<Rightarrow> bool \<times> bool \<times> output_reference"
  auction_is_closed :: "output_reference \<Rightarrow> 'db \<Rightarrow> bool"
  domain_is_expired :: "output_reference \<Rightarrow> 'db \<Rightarrow> bool"
  has_dns_record :: "'db \<Rightarrow> string \<Rightarrow> bool"
  transaction_validator_validate_input ::
    "meta_trx_input \<Rightarrow> dns_tx_evaluation_state \<Rightarrow> dns_block_evaluation_state \<Rightarrow> result"
  transaction_validator_validate_output ::
    "trx_output \<Rightarrow> dns_tx_evaluation_state \<Rightarrow> dns_block_evaluation_state \<Rightarrow> result"

section \<open>The state rule and the amount rule\<close>


text \<open>
  Modelled from the spec: the minimum-amount rule and the minimum auction floor are missing;
  the floor is a configuration constant, a parameter here. In the words of the spec the
  amount must be strictly positive and, for new claims, at least the minimum auction floor.
\<close>

definition minimum_amount_rule :: "asset \<Rightarrow> bool \<Rightarrow> asset \<Rightarrow> bool" where
  "minimum_amount_rule min_floor new_claim a = (0 < a \<and> (new_claim \<longrightarrow> min_floor \<le> a))"


section \<open>The validator\<close>

definition validate_domain_input ::
  "'db dns_util \<Rightarrow> 'db \<Rightarrow> claim_domain_output \<Rightarrow> asset \<Rightarrow> dns_tx_evaluation_state \<Rightarrow>
   dns_block_evaluation_state \<Rightarrow> tx_result" where
  "validate_domain_input u db inp amt st block_state =
     (if seen_domain_input st then (Some More_than_one_domain_claim_input, st)
      else if \<not> has_dns_record u db (name inp) then (Some Input_references_invalid_name, st)
      else (None, st\<lparr>input := inp, input_amount := amt, seen_domain_input := True\<rparr>))"

text \<open>
  The search for an output to the past owner in \<^verbatim>\<open>validate_domain_output\<close>: the loop
  over \<^verbatim>\<open>state.trx.outputs\<close> that sets \<^verbatim>\<open>found\<close> and leaves at the first output
  that is a claim by signature, has at least \<^verbatim>\<open>amount_back\<close>, and pays the owner of the
  input.
\<close>

fun found_output_to_past_owner :: "asset \<Rightarrow> address \<Rightarrow> trx_output list \<Rightarrow> bool" where
  "found_output_to_past_owner amount_back past_owner [] = False"
| "found_output_to_past_owner amount_back past_owner (other_out # rest) =
     (let right_claim = (case claim other_out of claim_by_signature a \<Rightarrow> True | _ \<Rightarrow> False);
          enough = (amount other_out \<ge> amount_back);
          to_owner = (right_claim \<and>
            (case claim other_out of claim_by_signature a \<Rightarrow> a = past_owner | _ \<Rightarrow> False))
      in if right_claim \<and> enough \<and> to_owner then True
         else found_output_to_past_owner amount_back past_owner rest)"

definition validate_domain_output ::
  "'db dns_util \<Rightarrow> 'db \<Rightarrow> claim_domain_output \<Rightarrow> asset \<Rightarrow> dns_tx_evaluation_state \<Rightarrow>
   dns_block_evaluation_state \<Rightarrow> tx_result" where
  "validate_domain_output u db out amt st0 block_state =
     (if seen_domain_output st0 then (Some More_than_one_domain_claim_output, st0)
      else
        let st = st0\<lparr>seen_domain_output := True\<rparr> in
        if \<not> is_valid_name u (name out) then (Some Invalid_name, st)
        else if \<not> is_valid_value u (domain_value out) then (Some Invalid_value, st)
        else if \<not> is_valid_state u (state out) then (Some Invalid_state, st)
        else if \<not> is_valid_amount u amt then (Some Invalid_amount, st)
        else
          case name_is_available u (name out) (name_pool block_state) db of
            (available, new_or_expired, prev_tx_ref) \<Rightarrow>
          if \<not> seen_domain_input st then
            (if new_or_expired \<and> available then (None, st)
             else (Some Name_already_exists, st))
          else if new_or_expired then (Some Name_new_or_expired, st)
          else if name out \<noteq> name (input st) then (Some Different_input_and_output_names, st)
          else if \<not> auction_is_closed u prev_tx_ref db then
            (if \<not> available then (Some Name_not_available, st)
             else if state (input st) \<noteq> possibly_in_auction then (Some Input_not_for_auction, st)
             else
               case is_valid_bid_price u (input_amount st) amt of
                 (valid, amount_back) \<Rightarrow>
               if \<not> valid then (Some Invalid_bid_amount, st)
               else
                 let st' = add_required_fees (amt - amount_back) st in
                 if found_output_to_past_owner amount_back (owner (input st')) (outputs (trx st'))
                 then (None, st')
                 else (Some Bid_did_not_pay_enough_to_previous_owner, st'))
          else if domain_is_expired u prev_tx_ref db then (Some Domain_is_expired, st)
          else if state out = not_in_auction \<and> amt \<noteq> input_amount st
            then (Some Output_amount_should_not_change, st)
          else if \<not> has_signature st (owner out) then (Some Missing_required_signature, st)
          else (None, st))"

text \<open>
  The two entry points the enclosing validator calls. A name claim goes to the rules above;
  anything else goes to the inherited validator. \<^verbatim>\<open>validate_output\<close> pushes the name of
  the output on the name pool once \<^verbatim>\<open>validate_domain_output\<close> has returned; an exception
  of the latter leaves the function before the push.
\<close>

definition validate_input ::
  "'db dns_util \<Rightarrow> 'db \<Rightarrow> meta_trx_input \<Rightarrow> dns_tx_evaluation_state \<Rightarrow>
   dns_block_evaluation_state \<Rightarrow> result" where
  "validate_input u db inp st block_state =
     (case claim (in_output inp) of
        claim_domain dns_input \<Rightarrow>
          (case validate_domain_input u db dns_input (amount (in_output inp)) st block_state of
             (r, st') \<Rightarrow> (r, st', block_state))
      | _ \<Rightarrow> transaction_validator_validate_input u inp st block_state)"

definition validate_output ::
  "'db dns_util \<Rightarrow> 'db \<Rightarrow> trx_output \<Rightarrow> dns_tx_evaluation_state \<Rightarrow>
   dns_block_evaluation_state \<Rightarrow> result" where
  "validate_output u db out st block_state =
     (case claim out of
        claim_domain dns_output \<Rightarrow>
          (case validate_domain_output u db dns_output (amount out) st block_state of
             (Some e, st') \<Rightarrow> (Some e, st', block_state)
           | (None, st') \<Rightarrow>
               (None, st', block_state\<lparr>name_pool := name_pool block_state @ [name dns_output]\<rparr>))
      | _ \<Rightarrow> transaction_validator_validate_output u out st block_state)"

section \<open>Concrete transactions\<close>

text \<open>
  One instance of the parameters, to evaluate the validator on concrete
  transactions. The database is the list of the names that have a record; the two flags say
  whether the auction of a recorded name is closed and whether the record is expired. A name
  is available when it is not in the pool and has no record, an expired record, or a record
  whose auction is open. A bid must exceed the previous amount, all of which goes back to the
  previous owner. The inherited validator accepts everything.
\<close>

definition example_util :: "bool \<Rightarrow> bool \<Rightarrow> (string list) dns_util" where
  "example_util closed expired =
     \<lparr>is_valid_name = (\<lambda>n. 0 < length n \<and> length n \<le> 8),
      is_valid_value = (\<lambda>v. length v \<le> 16),
      is_valid_state = (\<lambda>s. s = possibly_in_auction \<or> s = not_in_auction),
      is_valid_amount = (\<lambda>a. 0 < a),
      is_valid_bid_price = (\<lambda>prev bid. (prev < bid, prev)),
      name_is_available = (\<lambda>n pool db.
        (if n \<in> set pool then False
         else if n \<in> set db then (if expired then True else if closed then False else True)
         else True,
         if n \<in> set db then expired else True,
         (0, 0))),
      auction_is_closed = (\<lambda>r db. closed),
      domain_is_expired = (\<lambda>r db. expired),
      has_dns_record = (\<lambda>db n. n \<in> set db),
      transaction_validator_validate_input = (\<lambda>i st b. (None, st, b)),
      transaction_validator_validate_output = (\<lambda>out st b. (None, st, b))\<rparr>"


definition example_claim :: "string \<Rightarrow> address \<Rightarrow> states \<Rightarrow> claim_domain_output" where
  "example_claim n k s = \<lparr>name = n, domain_value = ''v'', owner = k, state = s\<rparr>"

definition example_state :: "trx_output list \<Rightarrow> address list \<Rightarrow> dns_tx_evaluation_state" where
  "example_state outs signers =
     \<lparr>trx = \<lparr>outputs = outs\<rparr>, sigs = signers, required_fees = 0,
      seen_domain_input = False, seen_domain_output = False,
      input = example_claim '''' '''' not_in_auction, input_amount = 0\<rparr>"

text \<open>
  The transactions of the examples: the name \<open>alice\<close> was claimed by the key \<open>K1\<close> for
  100; a bid of 150 by \<open>K2\<close> spends that claim, with or without an output that pays 100 back
  to \<open>K1\<close>.
\<close>

definition example_input :: meta_trx_input where
  "example_input =
     \<lparr>in_output = \<lparr>amount = 100,
        claim = claim_domain (example_claim ''alice'' ''K1'' possibly_in_auction)\<rparr>\<rparr>"

definition example_bid :: trx_output where
  "example_bid =
     \<lparr>amount = 150, claim = claim_domain (example_claim ''alice'' ''K2'' possibly_in_auction)\<rparr>"

definition example_refund :: trx_output where
  "example_refund = \<lparr>amount = 100, claim = claim_by_signature ''K1''\<rparr>"

definition example_state_with_input ::
  "trx_output list \<Rightarrow> address list \<Rightarrow> dns_tx_evaluation_state" where
  "example_state_with_input outs signers =
     (example_state outs signers)
       \<lparr>input := example_claim ''alice'' ''K1'' possibly_in_auction, input_amount := 100,
        seen_domain_input := True\<rparr>"

definition example_claim_alice :: trx_output where
  "example_claim_alice =
     \<lparr>amount = 100, claim = claim_domain (example_claim ''alice'' ''K1'' possibly_in_auction)\<rparr>"

definition example_claim_bob :: trx_output where
  "example_claim_bob =
     \<lparr>amount = 100, claim = claim_domain (example_claim ''bob'' ''K1'' possibly_in_auction)\<rparr>"

section \<open>Auxiliary facts\<close>

text \<open>The loop over the outputs finds an output exactly when there is one to find.\<close>

lemma found_output_to_past_owner_iff:
  "found_output_to_past_owner amount_back past_owner outs \<longleftrightarrow>
     (\<exists>other_out \<in> set outs. claim other_out = claim_by_signature past_owner \<and>
        amount_back \<le> amount other_out)"
  by (induction outs) (auto simp: Let_def split: claim.splits)

text \<open>What \<^verbatim>\<open>validate_output\<close> does with a name claim.\<close>

lemma validate_output_claim_domain:
  "validate_output u db \<lparr>amount = amt, claim = claim_domain out\<rparr> st blk =
     (case validate_domain_output u db out amt st blk of
        (Some e, st') \<Rightarrow> (Some e, st', blk)
      | (None, st') \<Rightarrow> (None, st', blk\<lparr>name_pool := name_pool blk @ [name out]\<rparr>))"
  by (simp add: validate_output_def)

text \<open>
  \<^verbatim>\<open>validate_domain_output\<close> as one chain of tests, once the results of the name
  classification and of the bid pricing have names.
\<close>

lemma validate_domain_output_cases:
  assumes "name_is_available u (name out) (name_pool blk) db = (available, new_or_expired, prev_tx_ref)"
    and "is_valid_bid_price u (input_amount st) amt = (valid, amount_back)"
  shows "validate_domain_output u db out amt st blk =
     (if seen_domain_output st then (Some More_than_one_domain_claim_output, st)
      else if \<not> is_valid_name u (name out) then (Some Invalid_name, st\<lparr>seen_domain_output := True\<rparr>)
      else if \<not> is_valid_value u (domain_value out) then (Some Invalid_value, st\<lparr>seen_domain_output := True\<rparr>)
      else if \<not> is_valid_state u (state out) then (Some Invalid_state, st\<lparr>seen_domain_output := True\<rparr>)
      else if \<not> is_valid_amount u amt then (Some Invalid_amount, st\<lparr>seen_domain_output := True\<rparr>)
      else if \<not> seen_domain_input st then
        (if new_or_expired \<and> available then (None, st\<lparr>seen_domain_output := True\<rparr>)
         else (Some Name_already_exists, st\<lparr>seen_domain_output := True\<rparr>))
      else if new_or_expired then (Some Name_new_or_expired, st\<lparr>seen_domain_output := True\<rparr>)
      else if name out \<noteq> name (input st) then
        (Some Different_input_and_output_names, st\<lparr>seen_domain_output := True\<rparr>)
      else if \<not> auction_is_closed u prev_tx_ref db then
        (if \<not> available then (Some Name_not_available, st\<lparr>seen_domain_output := True\<rparr>)
         else if state (input st) \<noteq> possibly_in_auction then
           (Some Input_not_for_auction, st\<lparr>seen_domain_output := True\<rparr>)
         else if \<not> valid then (Some Invalid_bid_amount, st\<lparr>seen_domain_output := True\<rparr>)
         else if found_output_to_past_owner amount_back (owner (input st)) (outputs (trx st)) then
           (None, st\<lparr>seen_domain_output := True, required_fees := required_fees st + (amt - amount_back)\<rparr>)
         else (Some Bid_did_not_pay_enough_to_previous_owner,
               st\<lparr>seen_domain_output := True, required_fees := required_fees st + (amt - amount_back)\<rparr>))
      else if domain_is_expired u prev_tx_ref db then (Some Domain_is_expired, st\<lparr>seen_domain_output := True\<rparr>)
      else if state out = not_in_auction \<and> amt \<noteq> input_amount st then
        (Some Output_amount_should_not_change, st\<lparr>seen_domain_output := True\<rparr>)
      else if \<not> has_signature st (owner out) then
        (Some Missing_required_signature, st\<lparr>seen_domain_output := True\<rparr>)
      else (None, st\<lparr>seen_domain_output := True\<rparr>))"
  using assms
  by (simp add: validate_domain_output_def Let_def add_required_fees_def has_signature_def)


text \<open>What failing the minimum-amount rule means, and that the helper enforces the rule.\<close>

lemma minimum_amount_rule_fails:
  "\<not> minimum_amount_rule min_floor new_claim a \<longleftrightarrow> a \<le> 0 \<or> (new_claim \<and> a < min_floor)"
  by (auto simp: minimum_amount_rule_def)


section \<open>New claims\<close>

text \<open>
  C1. In a transaction in which no claim input has been seen, a claim output that passes the
  checks made before the name is classified (it is the first claim output of the transaction,
  and its name, value, state and amount are valid) is accepted if and only if the name is
  classified as both new-or-expired and available. When it is accepted, the name is appended
  to the name pool of the block and the required fees stay as they were; otherwise the output
  is rejected, and the name pool is left as it was.
\<close>

theorem new_claim_accepted_iff_new_and_available:
  assumes "\<not> seen_domain_input st" and "\<not> seen_domain_output st"
    and "is_valid_name u (name out)" and "is_valid_value u (domain_value out)"
    and "is_valid_state u (state out)" and "is_valid_amount u amt"
    and "name_is_available u (name out) (name_pool blk) db = (available, new_or_expired, prev_tx_ref)"
  shows "validate_output u db \<lparr>amount = amt, claim = claim_domain out\<rparr> st blk =
     (if new_or_expired \<and> available
      then (None, st\<lparr>seen_domain_output := True\<rparr>,
            blk\<lparr>name_pool := name_pool blk @ [name out]\<rparr>)
      else (Some Name_already_exists, st\<lparr>seen_domain_output := True\<rparr>, blk))
    \<and> required_fees (fst (snd (validate_output u db \<lparr>amount = amt, claim = claim_domain out\<rparr> st blk)))
      = required_fees st"
  using assms by (simp add: validate_output_claim_domain validate_domain_output_def Let_def)


text \<open>
  The name \<open>alice\<close> has no record: its claim is accepted with an empty pool, and rejected
  once the pool holds \<open>alice\<close>.
\<close>

theorem new_claim_accepted_iff_new_and_available_witness:
  "\<not> seen_domain_input (example_state [] [])
   \<and> \<not> seen_domain_output (example_state [] [])
   \<and> is_valid_name (example_util False False) ''alice''
   \<and> is_valid_amount (example_util False False) 100
   \<and> name_is_available (example_util False False) ''alice'' [] [] = (True, True, (0, 0))
   \<and> name_is_available (example_util False False) ''alice'' [''alice''] [] = (False, True, (0, 0))
   \<and> validate_output (example_util False False) []
     \<lparr>amount = 100, claim = claim_domain (example_claim ''alice'' ''K1'' possibly_in_auction)\<rparr>
     (example_state [] []) \<lparr>name_pool = []\<rparr>
   = (None, (example_state [] [])\<lparr>seen_domain_output := True\<rparr>, \<lparr>name_pool = [''alice'']\<rparr>)
   \<and> fst (validate_output (example_util False False) []
     \<lparr>amount = 100, claim = claim_domain (example_claim ''alice'' ''K1'' possibly_in_auction)\<rparr>
     (example_state [] []) \<lparr>name_pool = [''alice'']\<rparr>) = Some Name_already_exists"
  using new_claim_accepted_iff_new_and_available
      [of "example_state [] []" "example_util False False"
          "example_claim ''alice'' ''K1'' possibly_in_auction" 100 "\<lparr>name_pool = []\<rparr>" "[]"
          True True "(0, 0)"]
    new_claim_accepted_iff_new_and_available
      [of "example_state [] []" "example_util False False"
          "example_claim ''alice'' ''K1'' possibly_in_auction" 100 "\<lparr>name_pool = [''alice'']\<rparr>" "[]"
          False True "(0, 0)"]
  by (simp add: example_util_def example_claim_def example_state_def)

section \<open>Claims that spend a claim input\<close>

text \<open>
  C2. In a transaction with a claim input already seen, a claim output is rejected when the
  name is new or expired, and when the name of the output differs from the name of the
  input. When moreover the auction of the referenced record is still open, the output is
  rejected when the name is not available and when the state of the input is not
  \<open>possibly_in_auction\<close>.
\<close>

theorem claim_input_seen_rejections:
  assumes "seen_domain_input st"
    and "name_is_available u (name out) (name_pool blk) db = (available, new_or_expired, prev_tx_ref)"
  shows "(new_or_expired \<or> name out \<noteq> name (input st) \<longrightarrow>
            fst (validate_domain_output u db out amt st blk) \<noteq> None)
       \<and> (\<not> auction_is_closed u prev_tx_ref db \<and>
            (\<not> available \<or> state (input st) \<noteq> possibly_in_auction) \<longrightarrow>
            fst (validate_domain_output u db out amt st blk) \<noteq> None)"
  using assms
  by (simp add: validate_domain_output_def Let_def split: prod.splits)


text \<open>
  With the claim of \<open>alice\<close> as input, an output for \<open>bob\<close> is rejected, and so is a bid
  for \<open>alice\<close> when the pool already holds that name.
\<close>

theorem claim_input_seen_rejections_witness:
  "seen_domain_input (example_state_with_input [] [])
   \<and> fst (validate_domain_output (example_util False False) [''alice''] 
        (example_claim ''bob'' ''K2'' possibly_in_auction) 150
        (example_state_with_input [] []) \<lparr>name_pool = []\<rparr>) \<noteq> None
   \<and> fst (validate_domain_output (example_util False False) [''alice''] 
        (example_claim ''alice'' ''K2'' possibly_in_auction) 150
        (example_state_with_input [] []) \<lparr>name_pool = [''alice'']\<rparr>) \<noteq> None"
  using claim_input_seen_rejections
      [where st = "example_state_with_input [] []" and u = "example_util False False"
         and out = "example_claim ''bob'' ''K2'' possibly_in_auction" and amt = 150
         and blk = "\<lparr>name_pool = []\<rparr>" and db = "[''alice'']"
         and available = True and new_or_expired = True and prev_tx_ref = "(0, 0)"]
    claim_input_seen_rejections
      [where st = "example_state_with_input [] []" and u = "example_util False False"
         and out = "example_claim ''alice'' ''K2'' possibly_in_auction" and amt = 150
         and blk = "\<lparr>name_pool = [''alice'']\<rparr>" and db = "[''alice'']"
         and available = False and new_or_expired = False and prev_tx_ref = "(0, 0)"]
  by (simp add: example_util_def example_claim_def example_state_def
        example_state_with_input_def)

text \<open>
  C3. On the path of a bid in an open auction, every accepted bid of amount \<open>amt\<close> raises
  the required fees of the transaction by exactly \<open>amt - amount_back\<close>, where
  \<open>amount_back\<close> is the refund computed by the bid pricing, and a bid is accepted only if
  some output of the transaction is a claim by signature of at least \<open>amount_back\<close> whose
  owner is the owner of the input; without such an output the bid is rejected.
\<close>

theorem open_auction_bid_fee_and_refund:
  assumes "seen_domain_input st"
    and "name_is_available u (name out) (name_pool blk) db = (available, new_or_expired, prev_tx_ref)"
    and "\<not> auction_is_closed u prev_tx_ref db"
    and "is_valid_bid_price u (input_amount st) amt = (valid, amount_back)"
    and "validate_domain_output u db out amt st blk = (r, st')"
  shows "(r = None \<longrightarrow>
            required_fees st' = required_fees st + (amt - amount_back) \<and>
            (\<exists>other_out \<in> set (outputs (trx st)).
               claim other_out = claim_by_signature (owner (input st)) \<and>
               amount_back \<le> amount other_out))
       \<and> (\<not> (\<exists>other_out \<in> set (outputs (trx st)).
               claim other_out = claim_by_signature (owner (input st)) \<and>
               amount_back \<le> amount other_out) \<longrightarrow> r \<noteq> None)"
  using assms
  by (auto simp: validate_domain_output_def Let_def add_required_fees_def
        found_output_to_past_owner_iff split: if_splits)

text \<open>
  The bid of 150 on the claim of 100: with the output of 100 to \<open>K1\<close> it is accepted and
  the required fees grow by 50; without that output it is rejected.
\<close>

theorem open_auction_bid_fee_and_refund_witness:
  "seen_domain_input (example_state_with_input [example_bid, example_refund] [])
   \<and> \<not> auction_is_closed (example_util False False) (0, 0) [''alice'']
   \<and> is_valid_bid_price (example_util False False) 100 150 = (True, 100)
   \<and> validate_domain_output (example_util False False) [''alice'']
        (example_claim ''alice'' ''K2'' possibly_in_auction) 150
        (example_state_with_input [example_bid, example_refund] []) \<lparr>name_pool = []\<rparr>
      = (None, (example_state_with_input [example_bid, example_refund] [])
                 \<lparr>seen_domain_output := True, required_fees := 50\<rparr>)
   \<and> required_fees ((example_state_with_input [example_bid, example_refund] [])
                 \<lparr>seen_domain_output := True, required_fees := 50\<rparr>)
      = required_fees (example_state_with_input [example_bid, example_refund] []) + (150 - 100)
   \<and> fst (validate_domain_output (example_util False False) [''alice'']
        (example_claim ''alice'' ''K2'' possibly_in_auction) 150
        (example_state_with_input [example_bid] []) \<lparr>name_pool = []\<rparr>)
      = Some Bid_did_not_pay_enough_to_previous_owner"
  using open_auction_bid_fee_and_refund
      [where st = "example_state_with_input [example_bid, example_refund] []"
         and u = "example_util False False"
         and out = "example_claim ''alice'' ''K2'' possibly_in_auction" and amt = 150
         and blk = "\<lparr>name_pool = []\<rparr>" and db = "[''alice'']"
         and available = True and new_or_expired = False and prev_tx_ref = "(0, 0)"
         and valid = True and amount_back = 100 and r = None
         and st' = "(example_state_with_input [example_bid, example_refund] [])
                 \<lparr>seen_domain_output := True, required_fees := 50\<rparr>"]
    open_auction_bid_fee_and_refund
      [where st = "example_state_with_input [example_bid] []"
         and u = "example_util False False"
         and out = "example_claim ''alice'' ''K2'' possibly_in_auction" and amt = 150
         and blk = "\<lparr>name_pool = []\<rparr>" and db = "[''alice'']"
         and available = True and new_or_expired = False and prev_tx_ref = "(0, 0)"
         and valid = True and amount_back = 100
         and r = "Some Bid_did_not_pay_enough_to_previous_owner"
         and st' = "(example_state_with_input [example_bid] [])
                 \<lparr>seen_domain_output := True, required_fees := 50\<rparr>"]
  by (simp add: example_util_def example_claim_def example_state_def
        example_state_with_input_def example_bid_def example_refund_def validate_domain_output_def add_required_fees_def)


text \<open>
  C4. On the path of a closed auction, a claim output is rejected when the referenced record
  is expired; when the state of the output is \<open>not_in_auction\<close> and its amount differs from
  the amount of the input; and, in every case, when the transaction is not signed by the owner
  of the output. An output that has passed the earlier checks and none of these three is
  accepted: an update that keeps the amount and is signed by the owner succeeds.
\<close>

theorem closed_auction_rejections:
  assumes "seen_domain_input st"
    and "name_is_available u (name out) (name_pool blk) db = (available, new_or_expired, prev_tx_ref)"
    and "auction_is_closed u prev_tx_ref db"
  shows "(domain_is_expired u prev_tx_ref db \<longrightarrow>
            fst (validate_domain_output u db out amt st blk) \<noteq> None)
       \<and> (state out = not_in_auction \<and> amt \<noteq> input_amount st \<longrightarrow>
            fst (validate_domain_output u db out amt st blk) \<noteq> None)
       \<and> (\<not> has_signature st (owner out) \<longrightarrow>
            fst (validate_domain_output u db out amt st blk) \<noteq> None)
       \<and> (\<not> seen_domain_output st \<and> is_valid_name u (name out) \<and>
          is_valid_value u (domain_value out) \<and> is_valid_state u (state out) \<and>
          is_valid_amount u amt \<and> \<not> new_or_expired \<and> name out = name (input st) \<and>
          \<not> domain_is_expired u prev_tx_ref db \<and> state out = not_in_auction \<and>
          amt = input_amount st \<and> has_signature st (owner out) \<longrightarrow>
            validate_domain_output u db out amt st blk = (None, st\<lparr>seen_domain_output := True\<rparr>))"
proof -
  obtain valid amount_back
    where bid: "is_valid_bid_price u (input_amount st) amt = (valid, amount_back)"
    by (cases "is_valid_bid_price u (input_amount st) amt")
  show ?thesis
    unfolding validate_domain_output_cases [OF assms(2) bid]
    using assms(1,3) by simp
qed

text \<open>
  An update of the record of \<open>alice\<close>, signed by its owner: rejected with the amount 120,
  accepted with the amount 100 of the input.
\<close>

theorem closed_auction_rejections_witness:
  "seen_domain_input (example_state_with_input [] [''K1''])
   \<and> auction_is_closed (example_util True False) (0, 0) [''alice'']
   \<and> fst (validate_domain_output (example_util True False) [''alice'']
        (example_claim ''alice'' ''K1'' not_in_auction) 120
        (example_state_with_input [] [''K1'']) \<lparr>name_pool = []\<rparr>) \<noteq> None
   \<and> validate_domain_output (example_util True False) [''alice'']
        (example_claim ''alice'' ''K1'' not_in_auction) 100
        (example_state_with_input [] [''K1'']) \<lparr>name_pool = []\<rparr>
      = (None, (example_state_with_input [] [''K1''])\<lparr>seen_domain_output := True\<rparr>)"
  using closed_auction_rejections
      [where st = "example_state_with_input [] [''K1'']" and u = "example_util True False"
         and out = "example_claim ''alice'' ''K1'' not_in_auction" and amt = 120
         and blk = "\<lparr>name_pool = []\<rparr>" and db = "[''alice'']"
         and available = False and new_or_expired = False and prev_tx_ref = "(0, 0)"]
    closed_auction_rejections
      [where st = "example_state_with_input [] [''K1'']" and u = "example_util True False"
         and out = "example_claim ''alice'' ''K1'' not_in_auction" and amt = 100
         and blk = "\<lparr>name_pool = []\<rparr>" and db = "[''alice'']"
         and available = False and new_or_expired = False and prev_tx_ref = "(0, 0)"]
  by (simp add: example_util_def example_claim_def example_state_def
        example_state_with_input_def has_signature_def)

text \<open>
  C10. On the path of a closed auction, when the state of the output is
  \<open>possibly_in_auction\<close>, the amount of the output need not equal the amount of the input:
  any amount that passes \<^verbatim>\<open>is_valid_amount\<close> is accepted, provided the record is not expired
  and the transaction is signed by the owner of the output.
\<close>

theorem closed_auction_sale_amount_free:
  assumes "\<not> seen_domain_output st"
    and "is_valid_name u (name out)" and "is_valid_value u (domain_value out)"
    and "is_valid_state u (state out)" and "is_valid_amount u amt"
    and "seen_domain_input st"
    and "name_is_available u (name out) (name_pool blk) db = (available, False, prev_tx_ref)"
    and "name out = name (input st)"
    and "auction_is_closed u prev_tx_ref db"
    and "\<not> domain_is_expired u prev_tx_ref db"
    and "state out = possibly_in_auction"
    and "has_signature st (owner out)"
  shows "validate_domain_output u db out amt st blk = (None, st\<lparr>seen_domain_output := True\<rparr>)"
  using assms
  by (simp add: validate_domain_output_def Let_def has_signature_def)

text \<open>The record of \<open>alice\<close>, locked with 100, is put on sale with the amount 500.\<close>

theorem closed_auction_sale_amount_free_witness:
  "seen_domain_input (example_state_with_input [] [''K2''])
   \<and> auction_is_closed (example_util True False) (0, 0) [''alice'']
   \<and> \<not> domain_is_expired (example_util True False) (0, 0) [''alice'']
   \<and> has_signature (example_state_with_input [] [''K2'']) ''K2''
   \<and> input_amount (example_state_with_input [] [''K2'']) = 100
   \<and> validate_domain_output (example_util True False) [''alice'']
        (example_claim ''alice'' ''K2'' possibly_in_auction) 500
        (example_state_with_input [] [''K2'']) \<lparr>name_pool = []\<rparr>
      = (None, (example_state_with_input [] [''K2''])\<lparr>seen_domain_output := True\<rparr>)"
  using closed_auction_sale_amount_free
      [where st = "example_state_with_input [] [''K2'']" and u = "example_util True False"
         and out = "example_claim ''alice'' ''K2'' possibly_in_auction" and amt = 500
         and blk = "\<lparr>name_pool = []\<rparr>" and db = "[''alice'']"
         and available = False and prev_tx_ref = "(0, 0)"]
  by (simp add: example_util_def example_claim_def example_state_def
        example_state_with_input_def has_signature_def)

section \<open>Claim inputs\<close>

text \<open>
  C7. \<^verbatim>\<open>validate_domain_input\<close> rejects when the transaction has already recorded a claim
  input and when the database has no record for the name of the input, and accepts
  otherwise; on success the input and its amount are stored in the state of the transaction
  and \<^verbatim>\<open>seen_domain_input\<close> is set.
\<close>

theorem validate_domain_input_rules:
  assumes "validate_domain_input u db inp amt st blk = (r, st')"
  shows "(seen_domain_input st \<or> \<not> has_dns_record u db (name inp) \<longrightarrow> r \<noteq> None)
       \<and> (\<not> seen_domain_input st \<and> has_dns_record u db (name inp) \<longrightarrow> r = None)
       \<and> (r = None \<longrightarrow>
            st' = st\<lparr>input := inp, input_amount := amt, seen_domain_input := True\<rparr> \<and>
            input st' = inp \<and> input_amount st' = amt \<and> seen_domain_input st')"
  using assms
  by (auto simp: validate_domain_input_def split: if_splits)

text \<open>
  The claim of \<open>alice\<close> is accepted as an input when the database has a record of the name,
  and rejected when it has none or when an input has been seen.
\<close>

theorem validate_domain_input_rules_witness:
  "validate_domain_input (example_util False False) [''alice'']
      (example_claim ''alice'' ''K1'' possibly_in_auction) 100 (example_state [] [])
      \<lparr>name_pool = []\<rparr>
     = (None, example_state_with_input [] [])
   \<and> input (example_state_with_input [] []) = example_claim ''alice'' ''K1'' possibly_in_auction
   \<and> input_amount (example_state_with_input [] []) = 100
   \<and> seen_domain_input (example_state_with_input [] [])
   \<and> fst (validate_domain_input (example_util False False) []
      (example_claim ''alice'' ''K1'' possibly_in_auction) 100 (example_state [] [])
      \<lparr>name_pool = []\<rparr>) = Some Input_references_invalid_name
   \<and> fst (validate_domain_input (example_util False False) [''alice'']
      (example_claim ''alice'' ''K1'' possibly_in_auction) 100 (example_state_with_input [] [])
      \<lparr>name_pool = []\<rparr>) = Some More_than_one_domain_claim_input"
  using validate_domain_input_rules
      [where u = "example_util False False" and db = "[''alice'']"
         and inp = "example_claim ''alice'' ''K1'' possibly_in_auction" and amt = 100
         and st = "example_state [] []" and blk = "\<lparr>name_pool = []\<rparr>"
         and r = None and st' = "example_state_with_input [] []"]
  by (simp add: example_util_def example_claim_def example_state_def
        example_state_with_input_def validate_domain_input_def)

text \<open>
  C9. The outcome of validating a claim input, and the state of the transaction it leaves,
  are the same for any two name pools; the block state is returned as it was passed.
\<close>

theorem validate_domain_input_ignores_name_pool:
  "validate_domain_input u db inp amt st blk1 = validate_domain_input u db inp amt st blk2
   \<and> snd (snd (validate_input u db \<lparr>in_output = \<lparr>amount = amt, claim = claim_domain inp\<rparr>\<rparr> st blk1)) = blk1"
  by (simp add: validate_domain_input_def validate_input_def)

section \<open>Checks made on every claim output\<close>



section \<open>Effects on the name pool and on the required fees\<close>

text \<open>
  C6, as the code has it. Every claim output that \<^verbatim>\<open>validate_output\<close> accepts, a
  successful bid on an open auction included, has its name appended to the name pool of the
  block: the pool then holds one more occurrence of the name than before.
\<close>

theorem accepted_claim_output_appends_name:
  assumes "validate_output u db \<lparr>amount = amt, claim = claim_domain out\<rparr> st blk = (None, st', blk')"
  shows "name_pool blk' = name_pool blk @ [name out]
       \<and> count_list (name_pool blk') (name out) = Suc (count_list (name_pool blk) (name out))"
  using assms
  by (auto simp: validate_output_claim_domain split: prod.splits option.splits)

text \<open>The accepted bid on \<open>alice\<close> leaves the pool holding \<open>alice\<close>.\<close>

theorem accepted_claim_output_appends_name_witness:
  "validate_output (example_util False False) [''alice''] example_bid
      (example_state_with_input [example_bid, example_refund] []) \<lparr>name_pool = []\<rparr>
     = (None,
        (example_state_with_input [example_bid, example_refund] [])
          \<lparr>seen_domain_output := True, required_fees := 50\<rparr>,
        \<lparr>name_pool = [''alice'']\<rparr>)
   \<and> count_list [''alice''] ''alice'' = Suc (count_list [] ''alice'')"
  using accepted_claim_output_appends_name
      [where u = "example_util False False" and db = "[''alice'']" and amt = 150
         and out = "example_claim ''alice'' ''K2'' possibly_in_auction"
         and st = "example_state_with_input [example_bid, example_refund] []"
         and blk = "\<lparr>name_pool = []\<rparr>"
         and st' = "(example_state_with_input [example_bid, example_refund] [])
                      \<lparr>seen_domain_output := True, required_fees := 50\<rparr>"
         and blk' = "\<lparr>name_pool = [''alice'']\<rparr>"]
  by (simp add: example_util_def example_claim_def example_state_def
        example_state_with_input_def example_bid_def example_refund_def validate_output_def validate_domain_output_def
        add_required_fees_def)

text \<open>
  C6 as stated fails: the transaction that spends the claim of \<open>alice\<close> and bids 150 for
  the name, with the refund, is accepted, and the pool, empty before the transaction, holds
  \<open>alice\<close> after it.
\<close>

theorem bid_adds_name_to_pool_counterexample:
  "validate_input (example_util False False) [''alice''] example_input
      (example_state [example_bid, example_refund] []) \<lparr>name_pool = []\<rparr>
     = (None, example_state_with_input [example_bid, example_refund] [], \<lparr>name_pool = []\<rparr>)
   \<and> fst (validate_output (example_util False False) [''alice''] example_bid
      (example_state_with_input [example_bid, example_refund] []) \<lparr>name_pool = []\<rparr>) = None
   \<and> \<not> count_list (name_pool (snd (snd (validate_output (example_util False False) [''alice'']
            example_bid (example_state_with_input [example_bid, example_refund] [])
            \<lparr>name_pool = []\<rparr>)))) ''alice''
        \<le> count_list (name_pool \<lparr>name_pool = []\<rparr>) ''alice''"
  by (simp add: example_util_def example_claim_def example_state_def
        example_state_with_input_def example_bid_def example_refund_def example_input_def validate_input_def validate_domain_input_def validate_output_def
        validate_domain_output_def add_required_fees_def)

text \<open>
  C5, as the code has it. Nothing is rolled back. A claim output that \<^verbatim>\<open>validate_output\<close>
  rejects does not get its name into the name pool, which is left as it was at the call, and
  the required fees are left as they were at the call unless the rejection is that of a bid
  without an output to the past owner, where \<open>amt - amount_back\<close> has already been added.
\<close>

theorem rejected_claim_output_effects:
  assumes "validate_output u db \<lparr>amount = amt, claim = claim_domain out\<rparr> st blk = (Some e, st', blk')"
  shows "blk' = blk
       \<and> required_fees st' =
           (if e = Bid_did_not_pay_enough_to_previous_owner
            then required_fees st + (amt - snd (is_valid_bid_price u (input_amount st) amt))
            else required_fees st)"
  using assms
  by (auto simp: validate_output_claim_domain validate_domain_output_def Let_def
        add_required_fees_def split: prod.splits option.splits if_splits)


text \<open>
  The bid of 150 without the refund is rejected with the pool unchanged and the required
  fees raised from 0 to 50.
\<close>

theorem rejected_claim_output_effects_witness:
  "validate_output (example_util False False) [''alice''] example_bid
      (example_state_with_input [example_bid] []) \<lparr>name_pool = []\<rparr>
     = (Some Bid_did_not_pay_enough_to_previous_owner,
        (example_state_with_input [example_bid] [])
          \<lparr>seen_domain_output := True, required_fees := 50\<rparr>,
        \<lparr>name_pool = []\<rparr>)
   \<and> required_fees (example_state_with_input [example_bid] []) = 0
   \<and> snd (is_valid_bid_price (example_util False False) 100 150) = 100"
  using rejected_claim_output_effects
      [where u = "example_util False False" and db = "[''alice'']" and amt = 150
         and out = "example_claim ''alice'' ''K2'' possibly_in_auction"
         and st = "example_state_with_input [example_bid] []"
         and blk = "\<lparr>name_pool = []\<rparr>"
         and e = Bid_did_not_pay_enough_to_previous_owner
         and st' = "(example_state_with_input [example_bid] [])
                      \<lparr>seen_domain_output := True, required_fees := 50\<rparr>"
         and blk' = "\<lparr>name_pool = []\<rparr>"]
  by (simp add: example_util_def example_claim_def example_state_def
        example_state_with_input_def example_bid_def validate_output_def validate_domain_output_def
        add_required_fees_def)

text \<open>
  C5 as stated fails. A transaction with two claim outputs, for \<open>alice\<close> and for \<open>bob\<close>,
  has them validated one after the other on the same states: the first is accepted and its
  name pushed, the second is rejected, and the pool still holds \<open>alice\<close>; a later
  transaction of the block that claims \<open>alice\<close> is then rejected. And the rejected bid
  without refund leaves the required fees of its transaction changed.
\<close>

theorem rejected_transaction_not_rolled_back_counterexample:
  "validate_output (example_util False False) [] example_claim_alice
      (example_state [example_claim_alice, example_claim_bob] []) \<lparr>name_pool = []\<rparr>
     = (None,
        (example_state [example_claim_alice, example_claim_bob] [])\<lparr>seen_domain_output := True\<rparr>,
        \<lparr>name_pool = [''alice'']\<rparr>)
   \<and> validate_output (example_util False False) [] example_claim_bob
      ((example_state [example_claim_alice, example_claim_bob] [])\<lparr>seen_domain_output := True\<rparr>)
      \<lparr>name_pool = [''alice'']\<rparr>
     = (Some More_than_one_domain_claim_output,
        (example_state [example_claim_alice, example_claim_bob] [])\<lparr>seen_domain_output := True\<rparr>,
        \<lparr>name_pool = [''alice'']\<rparr>)
   \<and> name_pool \<lparr>name_pool = [''alice'']\<rparr> \<noteq> name_pool \<lparr>name_pool = []\<rparr>
   \<and> fst (validate_output (example_util False False) [] example_claim_alice
      (example_state [example_claim_alice] []) \<lparr>name_pool = []\<rparr>) = None
   \<and> fst (validate_output (example_util False False) [] example_claim_alice
      (example_state [example_claim_alice] []) \<lparr>name_pool = [''alice'']\<rparr>)
     = Some Name_already_exists
   \<and> fst (validate_output (example_util False False) [''alice''] example_bid
      (example_state_with_input [example_bid] []) \<lparr>name_pool = []\<rparr>)
     = Some Bid_did_not_pay_enough_to_previous_owner
   \<and> required_fees (fst (snd (validate_output (example_util False False) [''alice''] example_bid
      (example_state_with_input [example_bid] []) \<lparr>name_pool = []\<rparr>)))
     \<noteq> required_fees (example_state_with_input [example_bid] [])"
  by (simp add: example_util_def example_claim_def example_state_def
        example_state_with_input_def example_bid_def example_claim_alice_def example_claim_bob_def validate_output_def
        validate_domain_output_def add_required_fees_def)

end
